theory Spec2Isabelle
  imports Complex_Main
begin

section \<open>Zakah calculator: the calendar conversion of \<open>script.js\<close>\<close>

text \<open>
  The development embeds the logic of the class \<open>ZakahCalculator\<close> of \<open>script.js\<close>.
  JavaScript numbers that hold calendar quantities (years, months, days, day counts) are
  integers in every path modelled here and are taken as \<open>int\<close>; money amounts and rates
  are taken as \<open>real\<close> (the rounding of IEEE doubles is not modelled).
\<close>

subsection \<open>Hijri dates and the platform's \<open>Date\<close>\<close>

text \<open>
  The object literal \<open>{ year, month, day }\<close> that \<open>gregorianToHijri\<close> returns, and the
  three numbers that \<open>hijriToGregorian\<close> reads back from the string
  \<open>`${year}-${month}-${day}`\<close> built by \<open>updateHijriDate\<close>.
\<close>

record HijriDate =
  hijriYear :: int
  hijriMonth :: int
  hijriDay :: int

text \<open>
  Every \<open>Date\<close> the program builds is a local midnight, so a \<open>Date\<close> is modelled by the
  number of its local calendar day, counted from 1970-01-01 (day 0). The functions below
  follow the ECMAScript definitions of \<open>DayFromYear\<close>, \<open>MakeDay\<close> and of the getters.
  The bound of the time value (100,000,000 days around the epoch) is not modelled.
\<close>

datatype Date = Date (dayNumber: int)

definition DayFromYear :: "int \<Rightarrow> int" where
  "DayFromYear y =
     365 * (y - 1970) + (y - 1969) div 4 - (y - 1901) div 100 + (y - 1601) div 400"

definition InLeapYear :: "int \<Rightarrow> bool" where
  "InLeapYear y = (y mod 4 = 0 \<and> (y mod 100 \<noteq> 0 \<or> y mod 400 = 0))"

text \<open>Days of the year before month \<open>mn\<close> (0 is January), as the table of \<open>MonthFromTime\<close>.\<close>

definition daysBeforeMonth :: "int \<Rightarrow> int \<Rightarrow> int" where
  "daysBeforeMonth y mn =
     [0, 31, 59, 90, 120, 151, 181, 212, 243, 273, 304, 334] ! nat mn
       + (if InLeapYear y \<and> 2 \<le> mn then 1 else 0)"

text \<open>
  \<open>MakeDay(year, month, date)\<close>: the month may lie outside 0..11 and the date outside the
  month; both carry over.
\<close>

definition MakeDay :: "int \<Rightarrow> int \<Rightarrow> int \<Rightarrow> int" where
  "MakeDay y m dt =
     (let ym = y + m div 12; mn = m mod 12
      in DayFromYear ym + daysBeforeMonth ym mn + dt - 1)"

text \<open>\<open>new Date(year, monthIndex, day)\<close>.\<close>

definition newDate :: "int \<Rightarrow> int \<Rightarrow> int \<Rightarrow> Date" where
  "newDate y m d = Date (MakeDay y m d)"

text \<open>
  The civil date of a day number: (year, month 1..12, day of month). The getters
  \<open>getFullYear\<close>, \<open>getMonth\<close> (0 is January) and \<open>getDate\<close> read it.
\<close>

definition civilFromDays :: "int \<Rightarrow> int \<times> int \<times> int" where
  "civilFromDays n =
     (let z = n + 719468;
          era = z div 146097;
          doe = z - era * 146097;
          yoe = (doe - doe div 1460 + doe div 36524 - doe div 146096) div 365;
          doy = doe - (365 * yoe + yoe div 4 - yoe div 100);
          mp = (5 * doy + 2) div 153;
          d = doy - (153 * mp + 2) div 5 + 1;
          m = (if mp < 10 then mp + 3 else mp - 9);
          y = yoe + era * 400 + (if m \<le> 2 then 1 else 0)
      in (y, m, d))"

definition getFullYear :: "Date \<Rightarrow> int" where
  "getFullYear t = fst (civilFromDays (dayNumber t))"

definition getMonth :: "Date \<Rightarrow> int" where
  "getMonth t = fst (snd (civilFromDays (dayNumber t))) - 1"

definition getDate :: "Date \<Rightarrow> int" where
  "getDate t = snd (snd (civilFromDays (dayNumber t)))"

text \<open>\<open>t.setDate(dt)\<close>: the day \<open>dt\<close> of the month of \<open>t\<close>, carrying over.\<close>

definition setDate :: "Date \<Rightarrow> int \<Rightarrow> Date" where
  "setDate t dt = Date (MakeDay (getFullYear t) (getMonth t) dt)"

text \<open>The date a number of days after (before, when negative) a date.\<close>

definition addDays :: "Date \<Rightarrow> int \<Rightarrow> Date" where
  "addDays t n = Date (dayNumber t + n)"

subsection \<open>Month and year lengths\<close>

text \<open>The remainder operator \<open>%\<close> of JavaScript on integers: the sign is the dividend's.\<close>

definition js_rem :: "int \<Rightarrow> int \<Rightarrow> int" where
  "js_rem a b = sgn a * (\<bar>a\<bar> mod \<bar>b\<bar>)"

definition longMonths :: "int list" where
  "longMonths = [1, 3, 5, 7, 9, 11]"

definition getDaysInHijriMonth :: "int \<Rightarrow> int \<Rightarrow> int" where
  "getDaysInHijriMonth year month = (if month \<in> set longMonths then 30 else 29)"

definition getHijriMonthDays :: "int \<Rightarrow> int \<Rightarrow> int" where
  "getHijriMonthDays year month = (if month \<in> set longMonths then 30 else 29)"

definition leapYears :: "int list" where
  "leapYears = [2, 5, 7, 10, 13, 16, 18, 21, 24, 26, 29]"

definition isHijriLeapYear :: "int \<Rightarrow> bool" where
  "isHijriLeapYear year = (js_rem year 30 \<in> set leapYears)"

definition getHijriYearDays :: "int \<Rightarrow> int" where
  "getHijriYearDays year = (if isHijriLeapYear year then 355 else 354)"

subsection \<open>\<open>hijriToGregorian\<close>\<close>

text \<open>
  The first loop of \<open>calculateHijriDaysFromReference\<close>:
  \<open>for (let year = reference.year; year < targetYear; year++) totalDays += getHijriYearDays(year)\<close>.
\<close>

function completeYears :: "int \<Rightarrow> int \<Rightarrow> int \<Rightarrow> int" where
  "completeYears year targetYear totalDays =
     (if year < targetYear
      then completeYears (year + 1) targetYear (totalDays + getHijriYearDays year)
      else totalDays)"
  by pat_completeness auto
termination
  by (relation "measure (\<lambda>(year, targetYear, totalDays). nat (targetYear - year))") auto

declare completeYears.simps [simp del]

text \<open>
  The second loop:
  \<open>for (let month = 1; month < targetMonth; month++) totalDays += getHijriMonthDays(targetYear, month)\<close>.
\<close>

function completeMonths :: "int \<Rightarrow> int \<Rightarrow> int \<Rightarrow> int \<Rightarrow> int" where
  "completeMonths targetYear month targetMonth totalDays =
     (if month < targetMonth
      then completeMonths targetYear (month + 1) targetMonth
             (totalDays + getHijriMonthDays targetYear month)
      else totalDays)"
  by pat_completeness auto
termination
  by (relation "measure (\<lambda>(targetYear, month, targetMonth, totalDays). nat (targetMonth - month))")
    auto

declare completeMonths.simps [simp del]

definition calculateHijriDaysFromReference ::
  "int \<Rightarrow> int \<Rightarrow> int \<Rightarrow> HijriDate \<Rightarrow> int" where
  "calculateHijriDaysFromReference targetYear targetMonth targetDay reference =
     (let totalDays = 0;
          totalDays = completeYears (hijriYear reference) targetYear totalDays;
          totalDays = completeMonths targetYear 1 targetMonth totalDays;
          totalDays = totalDays + (targetDay - hijriDay reference)
      in totalDays)"

definition referenceHijri :: HijriDate where
  "referenceHijri = \<lparr>hijriYear = 1446, hijriMonth = 1, hijriDay = 1\<rparr>"

definition referenceGregorian :: Date where
  "referenceGregorian = newDate 2024 6 8"

text \<open>The exceptions of the paths modelled.\<close>

datatype error = RangeError | TypeError | SyntaxError | Error

text \<open>
  \<open>hijriToGregorian(hijriDateString)\<close>. The argument is \<open>this.selectedDate\<close>: either the
  empty string (\<open>None\<close>) or the string of a date chosen in the three selectors
  (\<open>Some\<close> of its numbers). For the empty string \<open>split('-').map(Number)\<close> gives
  \<open>[0]\<close>, the month and day are \<open>undefined\<close>, the day count is \<open>NaN\<close>, the date is
  invalid and \<open>gregorianDate.toISOString()\<close> in the logging line throws a RangeError.
\<close>

definition hijriToGregorian :: "HijriDate option \<Rightarrow> error + Date" where
  "hijriToGregorian hijriDateString =
     (case hijriDateString of
        None \<Rightarrow> Inl RangeError
      | Some h \<Rightarrow>
          (let hijriDaysFromReference =
                 calculateHijriDaysFromReference (hijriYear h) (hijriMonth h) (hijriDay h)
                   referenceHijri;
               gregorianDate = referenceGregorian;
               gregorianDate = setDate gregorianDate (getDate gregorianDate + hijriDaysFromReference)
           in Inr gregorianDate))"

subsection \<open>\<open>gregorianToHijri\<close>\<close>

definition gregorianToHijri :: "Date \<Rightarrow> HijriDate" where
  "gregorianToHijri gregorianDate =
     (let year = getFullYear gregorianDate;
          month = getMonth gregorianDate + 1;
          day = getDate gregorianDate;
          baseGregorianYear = 2024;
          baseHijriYear = 1446;
          yearDiff = year - baseGregorianYear;
          hijriYear = baseHijriYear + yearDiff;
          hijriMonth = month;
          hijriDay = day
      in \<lparr>hijriYear = hijriYear,
          hijriMonth = max 1 (min 12 hijriMonth),
          hijriDay = max 1 (min 30 hijriDay)\<rparr>)"

text \<open>
  The conversion as the specification words it, for comparison with the code: the lengths
  of the years strictly between the reference year and the target year, the lengths of
  the months before the target month, and the day of the month less the reference day.
\<close>

definition spec_dayOffset :: "HijriDate \<Rightarrow> int" where
  "spec_dayOffset h =
     (\<Sum>y \<in> {hijriYear referenceHijri <..< hijriYear h}. getHijriYearDays y)
       + (\<Sum>m \<in> {1 ..< hijriMonth h}. getHijriMonthDays (hijriYear h) m)
       + (hijriDay h - hijriDay referenceHijri)"

section \<open>Exchange rates\<close>

text \<open>
  The object \<open>{ EGP, SAR, USD }\<close> the two rate functions return. A property read from a
  response that does not have it is \<open>undefined\<close>, here \<open>None\<close>.
\<close>

record RateSet =
  EGP :: "real option"
  SAR :: "real option"
  USD :: real

text \<open>
  The objects \<open>data.conversion_rates\<close> and \<open>data.rates\<close> of the two services: currency
  code to number. Entries that are not finite numbers are outside the model.
\<close>

type_synonym rates_object = "string \<rightharpoonup> real"

text \<open>
  What the historical service can answer to one request, as far as the code tells the
  cases apart: \<open>fetch\<close> rejects; the status is not ok; the body is not JSON; the body is
  \<open>null\<close>; or the body is an object whose \<open>result\<close> is the given string (if it has one)
  and whose \<open>conversion_rates\<close> is the given object (\<open>None\<close> when absent or falsy).
\<close>

datatype historical_reply =
    HFetchFailed
  | HNotOk nat
  | HNoJson
  | HNull
  | HData "string option" "rates_object option"

text \<open>The same for the latest-rates service; \<open>CData None\<close> is a body without \<open>rates\<close>.\<close>

datatype current_reply =
    CFetchFailed
  | CNotOk
  | CNoJson
  | CData "rates_object option"

text \<open>
  The remote services as the program sees them: the historical one answers by date string
  (\<open>YYYY-MM-DD\<close>, the three parts of the URL), the current one takes no argument.
\<close>

record rate_source =
  historical :: "string \<Rightarrow> historical_reply"
  current :: current_reply

text \<open>The requests a call sends, in order.\<close>

datatype query = HistoricalQuery string | CurrentQuery

definition fallbackRates :: RateSet where
  "fallbackRates = \<lparr>EGP = Some 48.0, SAR = Some 3.75, USD = 1\<rparr>"

text \<open>The \<open>try\<close> block of \<open>getCurrentExchangeRates\<close>.\<close>

definition getCurrentExchangeRates_try :: "rate_source \<Rightarrow> error + RateSet" where
  "getCurrentExchangeRates_try src =
     (case current src of
        CFetchFailed \<Rightarrow> Inl TypeError
      | CNotOk \<Rightarrow> Inl Error
      | CNoJson \<Rightarrow> Inl SyntaxError
      | CData None \<Rightarrow> Inl TypeError
      | CData (Some rates) \<Rightarrow> Inr \<lparr>EGP = rates ''EGP'', SAR = rates ''SAR'', USD = 1\<rparr>)"

text \<open>\<open>getCurrentExchangeRates()\<close>: the \<open>catch\<close> block returns the approximate rates.\<close>

definition getCurrentExchangeRates :: "rate_source \<Rightarrow> (error + RateSet) \<times> query list" where
  "getCurrentExchangeRates src =
     (case getCurrentExchangeRates_try src of
        Inr rates \<Rightarrow> (Inr rates, [CurrentQuery])
      | Inl e \<Rightarrow> (Inr fallbackRates, [CurrentQuery]))"

text \<open>
  The \<open>try\<close> block of \<open>getHistoricalExchangeRates\<close>. \<open>toISODate\<close> stands for
  \<open>date.toISOString().split('T')[0]\<close>, which depends on the host's time zone. The call
  \<open>return await this.getCurrentExchangeRates()\<close> stands inside the block, so an
  exception of it would reach the \<open>catch\<close> as well.
\<close>

definition getHistoricalExchangeRates_try ::
  "(Date \<Rightarrow> string) \<Rightarrow> rate_source \<Rightarrow> Date \<Rightarrow> (error + RateSet) \<times> query list" where
  "getHistoricalExchangeRates_try toISODate src date =
     (let dateString = toISODate date
      in case historical src dateString of
           HFetchFailed \<Rightarrow> (Inl TypeError, [HistoricalQuery dateString])
         | HNotOk status \<Rightarrow> (Inl Error, [HistoricalQuery dateString])
         | HNoJson \<Rightarrow> (Inl SyntaxError, [HistoricalQuery dateString])
         | HNull \<Rightarrow> (Inl TypeError, [HistoricalQuery dateString])
         | HData result conversion_rates \<Rightarrow>
             (if result \<noteq> Some ''success'' \<or> conversion_rates = None
              then (case getCurrentExchangeRates src of
                      (r, qs) \<Rightarrow> (r, HistoricalQuery dateString # qs))
              else (case conversion_rates of
                      Some rates \<Rightarrow>
                        (Inr \<lparr>EGP = rates ''EGP'', SAR = rates ''SAR'', USD = 1\<rparr>,
                         [HistoricalQuery dateString])
                    | None \<Rightarrow> (Inl TypeError, [HistoricalQuery dateString]))))"

text \<open>\<open>getHistoricalExchangeRates(date)\<close>: the \<open>catch\<close> block asks for the current rates.\<close>

definition getHistoricalExchangeRates ::
  "(Date \<Rightarrow> string) \<Rightarrow> rate_source \<Rightarrow> Date \<Rightarrow> (error + RateSet) \<times> query list" where
  "getHistoricalExchangeRates toISODate src date =
     (case getHistoricalExchangeRates_try toISODate src date of
        (Inr rates, qs) \<Rightarrow> (Inr rates, qs)
      | (Inl e, qs) \<Rightarrow>
          (case getCurrentExchangeRates src of (r, qs') \<Rightarrow> (r, qs @ qs')))"

text \<open>
  The lookup that \<open>calculateZakah\<close> (and, with the same text, \<open>updateCurrencyConversions\<close>)
  makes for a date: the cache first, else \<open>getHistoricalExchangeRates\<close> and
  \<open>exchangeRateCache.set\<close>. Result, new cache, requests sent.
\<close>

definition resolveExchangeRates ::
  "(Date \<Rightarrow> string) \<Rightarrow> rate_source \<Rightarrow> (string \<rightharpoonup> RateSet) \<Rightarrow> Date
     \<Rightarrow> (error + RateSet) \<times> (string \<rightharpoonup> RateSet) \<times> query list" where
  "resolveExchangeRates toISODate src cache gregorianDate =
     (let dateString = toISODate gregorianDate
      in case cache dateString of
           Some exchangeRates \<Rightarrow> (Inr exchangeRates, cache, [])
         | None \<Rightarrow>
             (case getHistoricalExchangeRates toISODate src gregorianDate of
                (Inr exchangeRates, qs) \<Rightarrow>
                  (Inr exchangeRates, cache(dateString \<mapsto> exchangeRates), qs)
              | (Inl e, qs) \<Rightarrow> (Inl e, cache, qs)))"

text \<open>
  The invariant the specification gives a RateSet: the three rates are there and positive.
\<close>

definition usable :: "RateSet \<Rightarrow> bool" where
  "usable r =
     ((case EGP r of None \<Rightarrow> False | Some e \<Rightarrow> 0 < e)
      \<and> (case SAR r of None \<Rightarrow> False | Some s \<Rightarrow> 0 < s)
      \<and> 0 < USD r)"

text \<open>When the code takes a reply as a failure of the service.\<close>

definition historicalFailed :: "historical_reply \<Rightarrow> bool" where
  "historicalFailed reply =
     (case reply of
        HData (Some result) (Some rates) \<Rightarrow> result \<noteq> ''success''
      | _ \<Rightarrow> True)"

definition currentFailed :: "current_reply \<Rightarrow> bool" where
  "currentFailed reply = (case reply of CData (Some rates) \<Rightarrow> False | _ \<Rightarrow> True)"

section \<open>The calculation\<close>

text \<open>
  A JavaScript number as the amounts of the calculation need it: a finite number, or
  \<open>NonFinite\<close> for \<open>NaN\<close>, \<open>Infinity\<close> and \<open>-Infinity\<close> together. In the expressions
  below a non-finite value is never a divisor, and sums and products with one are not
  finite either, so the three are not told apart.
\<close>

datatype number = Num real | NonFinite

text \<open>A rate read from a RateSet in an arithmetic expression: \<open>undefined\<close> converts to \<open>NaN\<close>.\<close>

definition toNumber :: "real option \<Rightarrow> number" where
  "toNumber v = (case v of None \<Rightarrow> NonFinite | Some x \<Rightarrow> Num x)"

fun nadd :: "number \<Rightarrow> number \<Rightarrow> number" where
  "nadd (Num a) (Num b) = Num (a + b)"
| "nadd _ _ = NonFinite"

fun nmul :: "number \<Rightarrow> number \<Rightarrow> number" where
  "nmul (Num a) (Num b) = Num (a * b)"
| "nmul _ _ = NonFinite"

fun ndiv :: "number \<Rightarrow> number \<Rightarrow> number" where
  "ndiv (Num a) (Num b) = (if b = 0 then NonFinite else Num (a / b))"
| "ndiv _ _ = NonFinite"

text \<open>
  The page: for each input field the result of \<open>parseFloat\<close> on its value (\<open>None\<close> for
  \<open>NaN\<close>), and the calculate button with its four labels.
\<close>

datatype button_text = ChooseCountryAndDate | EnterGoldPrice | EnterAmounts | CalculateZakah

record Page =
  gold_18k :: "real option"
  gold_21k :: "real option"
  gold_24k :: "real option"
  currency_egp :: "real option"
  currency_sar :: "real option"
  currency_usd :: "real option"
  calculate_btn_disabled :: bool
  calculate_btn_text :: button_text

text \<open>The fields of \<open>ZakahCalculator\<close> the calculation reads and writes.\<close>

record ZakahCalculator =
  country :: string
  selectedDate :: "HijriDate option"
  goldPrice :: real
  exchangeRateCache :: "string \<rightharpoonup> RateSet"

text \<open>\<open>parseFloat(...) || 0\<close>.\<close>

definition orZero :: "real option \<Rightarrow> real" where
  "orZero v = (case v of None \<Rightarrow> 0 | Some x \<Rightarrow> x)"




text \<open>
  The cash total with the rates of the date (the \<open>if\<close> on \<open>this.country\<close> in the inner
  \<open>try\<close> of \<open>calculateZakah\<close>). For another country \<open>totalCash\<close> stays \<open>undefined\<close>.
\<close>

definition cashWithRates :: "string \<Rightarrow> RateSet \<Rightarrow> real \<Rightarrow> real \<Rightarrow> real \<Rightarrow> number option" where
  "cashWithRates ctry exchangeRates currencyEGP currencySAR currencyUSD =
     (if ctry = ''EGP''
      then Some (nadd (nadd (Num currencyEGP)
                        (nmul (Num currencySAR)
                           (ndiv (toNumber (EGP exchangeRates)) (toNumber (SAR exchangeRates)))))
                   (nmul (Num currencyUSD) (toNumber (EGP exchangeRates))))
      else if ctry = ''SAR''
      then Some (nadd (nadd (nmul (Num currencyEGP)
                               (ndiv (toNumber (SAR exchangeRates)) (toNumber (EGP exchangeRates))))
                        (Num currencySAR))
                   (nmul (Num currencyUSD) (toNumber (SAR exchangeRates))))
      else None)"

text \<open>The cash total of the inner \<open>catch\<close>, with its four fixed rates.\<close>

definition cashWithSimpleRates :: "string \<Rightarrow> real \<Rightarrow> real \<Rightarrow> real \<Rightarrow> number option" where
  "cashWithSimpleRates ctry currencyEGP currencySAR currencyUSD =
     (let egpToSar = 0.078; sarToEgp = 12.8; usdToEgp = 48; usdToSar = 3.75
      in if ctry = ''EGP''
         then Some (Num (currencyEGP + currencySAR * sarToEgp + currencyUSD * usdToEgp))
         else if ctry = ''SAR''
         then Some (Num (currencyEGP * egpToSar + currencySAR + currencyUSD * usdToSar))
         else None)"

text \<open>The five figures \<open>displayResults\<close> puts on the page.\<close>

record ZakahResult =
  totalGold :: real
  goldValue :: real
  totalCash :: number
  totalWealth :: number
  zakahAmount :: number

text \<open>
  What the page shows after \<open>calculateZakah\<close>: the results, or the message of
  \<open>showError\<close> when the outer \<open>catch\<close> is reached.
\<close>

datatype shown = Results ZakahResult | ErrorMessage

text \<open>
  \<open>displayResults\<close>: \<open>totalCash.toLocaleString()\<close> throws a TypeError when \<open>totalCash\<close> is
  \<open>undefined\<close>, before the results section is made visible.
\<close>

definition displayResults ::
  "real \<Rightarrow> real \<Rightarrow> number option \<Rightarrow> number \<Rightarrow> number \<Rightarrow> error + ZakahResult" where
  "displayResults totalGold' goldValue' totalCash' totalWealth' zakahAmount' =
     (case totalCash' of
        None \<Rightarrow> Inl TypeError
      | Some cash \<Rightarrow>
          Inr \<lparr>totalGold = totalGold', goldValue = goldValue', totalCash = cash,
               totalWealth = totalWealth', zakahAmount = zakahAmount'\<rparr>)"

text \<open>The inner \<open>try\<close> of \<open>calculateZakah\<close>: the cash total, the new cache, the requests.\<close>

definition cashFromRates ::
  "(Date \<Rightarrow> string) \<Rightarrow> rate_source \<Rightarrow> ZakahCalculator \<Rightarrow> real \<Rightarrow> real \<Rightarrow> real
     \<Rightarrow> (error + number option) \<times> (string \<rightharpoonup> RateSet) \<times> query list" where
  "cashFromRates toISODate src app currencyEGP currencySAR currencyUSD =
     (case hijriToGregorian (selectedDate app) of
        Inl e \<Rightarrow> (Inl e, exchangeRateCache app, [])
      | Inr gregorianDate \<Rightarrow>
          (case resolveExchangeRates toISODate src (exchangeRateCache app) gregorianDate of
             (Inl e, cache, qs) \<Rightarrow> (Inl e, cache, qs)
           | (Inr exchangeRates, cache, qs) \<Rightarrow>
               (Inr (cashWithRates (country app) exchangeRates currencyEGP currencySAR currencyUSD),
                cache, qs)))"

text \<open>
  \<open>calculateZakah()\<close>: what the page shows, the calculator with its cache, the requests
  sent. An \<open>undefined\<close> cash total converts to \<open>NaN\<close> in the sum.
\<close>

definition calculateZakah ::
  "(Date \<Rightarrow> string) \<Rightarrow> rate_source \<Rightarrow> ZakahCalculator \<Rightarrow> Page
     \<Rightarrow> shown \<times> ZakahCalculator \<times> query list" where
  "calculateZakah toISODate src app page =
     (let gold18k = orZero (gold_18k page);
          gold21k = orZero (gold_21k page);
          gold24k = orZero (gold_24k page);
          totalGold24k = (gold18k * (18 / 24)) + (gold21k * (21 / 24)) + gold24k;
          goldValue' = totalGold24k * goldPrice app;
          currencyEGP = orZero (currency_egp page);
          currencySAR = orZero (currency_sar page);
          currencyUSD = orZero (currency_usd page)
      in case cashFromRates toISODate src app currencyEGP currencySAR currencyUSD of
           (attempt, cache, qs) \<Rightarrow>
             (let totalCash' =
                    (case attempt of
                       Inr cash \<Rightarrow> cash
                     | Inl e \<Rightarrow> cashWithSimpleRates (country app) currencyEGP currencySAR currencyUSD);
                  totalWealth' =
                    nadd (Num goldValue')
                      (case totalCash' of None \<Rightarrow> NonFinite | Some cash \<Rightarrow> cash);
                  zakahAmount' = nmul totalWealth' (Num 0.025)
              in ((case displayResults totalGold24k goldValue' totalCash' totalWealth' zakahAmount' of
                     Inr res \<Rightarrow> Results res
                   | Inl e \<Rightarrow> ErrorMessage),
                  app\<lparr>exchangeRateCache := cache\<rparr>, qs)))"


section \<open>Properties of the calendar conversion\<close>

subsection \<open>The loops as sums\<close>

lemma completeYears_sum:
  "completeYears year targetYear totalDays =
     totalDays + (\<Sum>y \<in> {year ..< targetYear}. getHijriYearDays y)"
proof (induction year targetYear totalDays rule: completeYears.induct)
  case (1 year targetYear totalDays)
  show ?case
  proof (cases "year < targetYear")
    case True
    then have split: "{year ..< targetYear} = insert year {year + 1 ..< targetYear}"
      by auto
    have "completeYears year targetYear totalDays =
            completeYears (year + 1) targetYear (totalDays + getHijriYearDays year)"
      using True by (subst completeYears.simps) simp
    also have "\<dots> = totalDays + getHijriYearDays year
                      + (\<Sum>y \<in> {year + 1 ..< targetYear}. getHijriYearDays y)"
      using "1.IH" [OF True] .
    also have "\<dots> = totalDays + (\<Sum>y \<in> {year ..< targetYear}. getHijriYearDays y)"
      by (simp add: split)
    finally show ?thesis .
  next
    case False
    then show ?thesis by (subst completeYears.simps) simp
  qed
qed

lemma completeMonths_sum:
  "completeMonths targetYear month targetMonth totalDays =
     totalDays + (\<Sum>m \<in> {month ..< targetMonth}. getHijriMonthDays targetYear m)"
proof (induction targetYear month targetMonth totalDays rule: completeMonths.induct)
  case (1 targetYear month targetMonth totalDays)
  show ?case
  proof (cases "month < targetMonth")
    case True
    then have split: "{month ..< targetMonth} = insert month {month + 1 ..< targetMonth}"
      by auto
    have "completeMonths targetYear month targetMonth totalDays =
            completeMonths targetYear (month + 1) targetMonth
              (totalDays + getHijriMonthDays targetYear month)"
      using True by (subst completeMonths.simps) simp
    also have "\<dots> = totalDays + getHijriMonthDays targetYear month
                      + (\<Sum>m \<in> {month + 1 ..< targetMonth}. getHijriMonthDays targetYear m)"
      using "1.IH" [OF True] .
    also have "\<dots> = totalDays
                      + (\<Sum>m \<in> {month ..< targetMonth}. getHijriMonthDays targetYear m)"
      by (simp add: split)
    finally show ?thesis .
  next
    case False
    then show ?thesis by (subst completeMonths.simps) simp
  qed
qed

lemma referenceGregorian_fields:
  "getFullYear referenceGregorian = 2024"
  "getMonth referenceGregorian = 6"
  "getDate referenceGregorian = 8"
  by code_simp+

lemma referenceGregorian_day: "referenceGregorian = Date 19912"
  by code_simp

lemma MakeDay_July_2024: "MakeDay 2024 6 dt = 19904 + dt"
  by (simp add: MakeDay_def DayFromYear_def daysBeforeMonth_def InLeapYear_def)

text \<open>The getters against \<open>new Date\<close>, at a few dates with and without carry.\<close>

lemma Date_examples:
  "civilFromDays 0 = (1970, 1, 1)"
  "civilFromDays (-1) = (1969, 12, 31)"
  "civilFromDays (dayNumber (newDate 2024 1 29)) = (2024, 2, 29)"
  "civilFromDays (dayNumber (newDate 2024 6 8)) = (2024, 7, 8)"
  "civilFromDays (dayNumber (newDate 2024 6 39)) = (2024, 8, 8)"
  "civilFromDays (dayNumber (newDate 2025 12 1)) = (2026, 1, 1)"
  by code_simp+

lemma setDate_referenceGregorian:
  "setDate referenceGregorian (getDate referenceGregorian + n) = addDays referenceGregorian n"
  by (simp add: setDate_def referenceGregorian_fields MakeDay_July_2024)
     (simp add: referenceGregorian_day addDays_def)

lemma hijriToGregorian_offset:
  "hijriToGregorian (Some h) =
     Inr (addDays referenceGregorian
           ((\<Sum>y \<in> {1446 ..< hijriYear h}. getHijriYearDays y)
             + (\<Sum>m \<in> {1 ..< hijriMonth h}. getHijriMonthDays (hijriYear h) m)
             + (hijriDay h - 1)))"
  by (simp add: hijriToGregorian_def calculateHijriDaysFromReference_def
      completeYears_sum completeMonths_sum referenceHijri_def setDate_referenceGregorian)


lemma hijriToGregorian_year_ignored:
  assumes "hijriYear h \<le> 1446"
  shows "hijriToGregorian (Some h) =
           Inr (addDays (newDate 2024 6 8)
                 ((\<Sum>m \<in> {1 ..< hijriMonth h}. getHijriMonthDays 1446 m) + (hijriDay h - 1)))"
proof -
  have "{1446 ..< hijriYear h} = {}" using assms by simp
  moreover have "getHijriMonthDays (hijriYear h) = getHijriMonthDays 1446"
    by (rule ext) (simp add: getHijriMonthDays_def)
  ultimately show ?thesis
    using hijriToGregorian_offset [of h] by (simp add: referenceGregorian_def)
qed

lemma hijriToGregorian_referenceHijri:
  "hijriToGregorian (Some \<lparr>hijriYear = 1446, hijriMonth = 1, hijriDay = 1\<rparr>)
     = Inr (newDate 2024 6 8)"
  by code_simp

lemma js_rem_nonneg: "0 \<le> a \<Longrightarrow> js_rem a 30 = a mod 30"
  by (cases "a = 0") (simp_all add: js_rem_def)

lemma longMonths_odd: "1 \<le> m \<Longrightarrow> m \<le> 12 \<Longrightarrow> m \<in> set longMonths \<longleftrightarrow> odd m"
  unfolding longMonths_def by simp presburger

subsection \<open>Lengths of years and months\<close>

text \<open>
  C8: every year has 354 or 355 days, and a year \<open>Y\<close> (from 0 on, where \<open>%\<close> is the
  mathematical remainder) has 355 exactly when \<open>Y mod 30\<close> is one of 2, 5, 7, 10, 13, 16,
  18, 21, 24, 26, 29; a month \<open>M\<close> of 1..12 has 30 days exactly when \<open>M\<close> is odd, whatever
  the year. \<open>getDaysInHijriMonth\<close>, which fills the day selector, is the same function.
\<close>

theorem hijri_lengths:
  "(getHijriYearDays Y = 354 \<or> getHijriYearDays Y = 355)
   \<and> (0 \<le> Y \<longrightarrow>
        (getHijriYearDays Y = 355 \<longleftrightarrow> Y mod 30 \<in> {2, 5, 7, 10, 13, 16, 18, 21, 24, 26, 29}))
   \<and> (getHijriMonthDays Y M = 29 \<or> getHijriMonthDays Y M = 30)
   \<and> (1 \<le> M \<and> M \<le> 12 \<longrightarrow> (getHijriMonthDays Y M = 30 \<longleftrightarrow> odd M))
   \<and> getDaysInHijriMonth Y M = getHijriMonthDays Y M"
proof -
  have a: "getHijriYearDays Y = 354 \<or> getHijriYearDays Y = 355"
    by (simp add: getHijriYearDays_def)
  have b: "getHijriYearDays Y = 355 \<longleftrightarrow> Y mod 30 \<in> {2, 5, 7, 10, 13, 16, 18, 21, 24, 26, 29}"
    if "0 \<le> Y"
    using that by (simp add: getHijriYearDays_def isHijriLeapYear_def js_rem_nonneg leapYears_def)
  have c: "getHijriMonthDays Y M = 29 \<or> getHijriMonthDays Y M = 30"
    by (simp add: getHijriMonthDays_def)
  have d: "getHijriMonthDays Y M = 30 \<longleftrightarrow> odd M" if "1 \<le> M \<and> M \<le> 12"
    using that longMonths_odd [of M] by (simp add: getHijriMonthDays_def)
  have e: "getDaysInHijriMonth Y M = getHijriMonthDays Y M"
    by (simp add: getDaysInHijriMonth_def getHijriMonthDays_def)
  from a b c d e show ?thesis by blast
qed

text \<open>The lengths of the leap year 1447, the common year 1446, and the months 9 and 12.\<close>

theorem hijri_lengths_witness:
  "getHijriYearDays 1447 = 355 \<and> (1447::int) mod 30 = 7
   \<and> getHijriYearDays 1446 = 354 \<and> (1446::int) mod 30 = 6
   \<and> getHijriMonthDays 1447 9 = 30 \<and> getHijriMonthDays 1446 12 = 29
   \<and> getDaysInHijriMonth 1447 9 = 30 \<and> getDaysInHijriMonth 1446 12 = 29"
  using hijri_lengths [of 1447 9] hijri_lengths [of 1446 12] by auto

subsection \<open>The reference date\<close>

text \<open>
  C7: \<open>hijriToGregorian\<close> of the reference date 1 Muharram 1446 is the date
  \<open>new Date(2024, 6, 8)\<close>, whose year, month index and day are 2024, 6 (July) and 8.
\<close>

theorem hijriToGregorian_reference:
  "hijriToGregorian (Some \<lparr>hijriYear = 1446, hijriMonth = 1, hijriDay = 1\<rparr>)
     = Inr (newDate 2024 6 8)
   \<and> getFullYear (newDate 2024 6 8) = 2024
   \<and> getMonth (newDate 2024 6 8) = 6
   \<and> getDate (newDate 2024 6 8) = 8"
  by code_simp

subsection \<open>The day offset\<close>

text \<open>
  C1, as the code has it: for a date from the year 1446 on, with a month of 1..12 and a day
  within the month, \<open>hijriToGregorian\<close> returns the date that many days after 2024-07-08:
  the lengths of the years from 1446 (the reference year itself included) up to the year
  before the target year, the lengths of the months before the target month in the
  target year, and the day of the month less 1.
\<close>

theorem hijriToGregorian_day_offset:
  assumes "1446 \<le> hijriYear h"
    and "1 \<le> hijriMonth h" and "hijriMonth h \<le> 12"
    and "1 \<le> hijriDay h" and "hijriDay h \<le> getHijriMonthDays (hijriYear h) (hijriMonth h)"
  shows "hijriToGregorian (Some h) =
     Inr (addDays (newDate 2024 6 8)
           ((\<Sum>y \<in> {1446 ..< hijriYear h}. getHijriYearDays y)
             + (\<Sum>m \<in> {1 ..< hijriMonth h}. getHijriMonthDays (hijriYear h) m)
             + (hijriDay h - 1)))"
  using hijriToGregorian_offset [of h] by (simp add: referenceGregorian_def)

text \<open>10 Rabi' al-awwal 1448: the years 1446 and 1447, the months 1 and 2, and 9 days.\<close>

theorem hijriToGregorian_day_offset_witness:
  "hijriToGregorian (Some \<lparr>hijriYear = 1448, hijriMonth = 3, hijriDay = 10\<rparr>)
     = Inr (addDays (newDate 2024 6 8) (354 + 355 + (30 + 29) + 9))"
proof -
  have y: "(\<Sum>y \<in> {1446 ..< 1448::int}. getHijriYearDays y) = 354 + 355"
    by code_simp
  have m: "(\<Sum>m \<in> {1 ..< 3::int}. getHijriMonthDays 1448 m) = 30 + 29"
    by code_simp
  have l: "getHijriMonthDays 1448 3 = 30"
    by code_simp
  show ?thesis
    using hijriToGregorian_day_offset [of "\<lparr>hijriYear = 1448, hijriMonth = 3, hijriDay = 10\<rparr>"]
    by (simp add: y m l)
qed

text \<open>
  Read with the years strictly between 1446 and the target year, the offset leaves the
  year 1446 out: for 1 Muharram 1447 it is 0 days, where the code counts the 354 days of
  1446.
\<close>

theorem hijriToGregorian_strictly_between_counterexample:
  "hijriToGregorian (Some \<lparr>hijriYear = 1447, hijriMonth = 1, hijriDay = 1\<rparr>)
     = Inr (addDays (newDate 2024 6 8) 354)
   \<and> spec_dayOffset \<lparr>hijriYear = 1447, hijriMonth = 1, hijriDay = 1\<rparr> = 0
   \<and> hijriToGregorian (Some \<lparr>hijriYear = 1447, hijriMonth = 1, hijriDay = 1\<rparr>)
     \<noteq> Inr (addDays (newDate 2024 6 8)
              (spec_dayOffset \<lparr>hijriYear = 1447, hijriMonth = 1, hijriDay = 1\<rparr>))"
  by code_simp

subsection \<open>Dates before the reference year\<close>

text \<open>
  C5: a date of a year before 1446 is not refused. The loop over the years runs forward
  only, so for such a year it adds nothing: the date is converted as the same day and
  month of the year 1446, and no error is raised. The year selector offers the six years
  before the current one.
\<close>

theorem hijriToGregorian_before_reference:
  assumes "hijriYear h < 1446"
  shows "hijriToGregorian (Some h) =
           Inr (addDays (newDate 2024 6 8)
                 ((\<Sum>m \<in> {1 ..< hijriMonth h}. getHijriMonthDays 1446 m) + (hijriDay h - 1)))
         \<and> hijriToGregorian (Some h) = hijriToGregorian (Some (h\<lparr>hijriYear := 1446\<rparr>))"
  using assms hijriToGregorian_year_ignored [of h]
    hijriToGregorian_year_ignored [of "h\<lparr>hijriYear := 1446\<rparr>"]
  by simp

text \<open>1 Muharram 1445 gives 8 July 2024, the date of 1 Muharram 1446.\<close>

theorem hijriToGregorian_before_reference_witness:
  "hijriToGregorian (Some \<lparr>hijriYear = 1445, hijriMonth = 1, hijriDay = 1\<rparr>)
     = Inr (newDate 2024 6 8)
   \<and> hijriToGregorian (Some \<lparr>hijriYear = 1445, hijriMonth = 1, hijriDay = 1\<rparr>)
     = hijriToGregorian (Some \<lparr>hijriYear = 1446, hijriMonth = 1, hijriDay = 1\<rparr>)"
  using hijriToGregorian_before_reference [of "\<lparr>hijriYear = 1445, hijriMonth = 1, hijriDay = 1\<rparr>"]
    hijriToGregorian_referenceHijri
  by (simp add: addDays_def)

subsection \<open>\<open>gregorianToHijri\<close>\<close>

text \<open>
  C9: \<open>gregorianToHijri\<close> keeps the Gregorian month and day. For 30 April 2025 it returns
  the day 30 of month 4 of 1447, a month of 29 days; all it ensures is a month within
  1..12 and a day within 1..30.
\<close>

theorem gregorianToHijri_day_exceeds_month:
  "gregorianToHijri (newDate 2025 3 30) = \<lparr>hijriYear = 1447, hijriMonth = 4, hijriDay = 30\<rparr>
   \<and> getDaysInHijriMonth 1447 4 = 29
   \<and> getHijriMonthDays 1447 4 = 29
   \<and> 1 \<le> hijriMonth (gregorianToHijri g) \<and> hijriMonth (gregorianToHijri g) \<le> 12
   \<and> 1 \<le> hijriDay (gregorianToHijri g) \<and> hijriDay (gregorianToHijri g) \<le> 30"
proof -
  have a: "gregorianToHijri (newDate 2025 3 30)
             = \<lparr>hijriYear = 1447, hijriMonth = 4, hijriDay = 30\<rparr>"
    by code_simp
  have b: "getDaysInHijriMonth 1447 4 = 29" "getHijriMonthDays 1447 4 = 29"
    by code_simp+
  have c: "1 \<le> hijriMonth (gregorianToHijri g) \<and> hijriMonth (gregorianToHijri g) \<le> 12
           \<and> 1 \<le> hijriDay (gregorianToHijri g) \<and> hijriDay (gregorianToHijri g) \<le> 30"
    by (simp add: gregorianToHijri_def Let_def)
  from a b c show ?thesis by simp
qed

section \<open>Properties of the rate lookup\<close>

subsection \<open>The two rate functions\<close>

lemma currentFailed_iff: "\<not> currentFailed c \<longleftrightarrow> (\<exists>rates. c = CData (Some rates))"
  by (auto simp: currentFailed_def split: current_reply.splits option.splits)

lemma historicalFailed_iff:
  "\<not> historicalFailed h \<longleftrightarrow> (\<exists>rates. h = HData (Some ''success'') (Some rates))"
  by (auto simp: historicalFailed_def split: historical_reply.splits option.splits)

lemma getCurrentExchangeRates_ok:
  "current src = CData (Some rates) \<Longrightarrow>
   getCurrentExchangeRates src =
     (Inr \<lparr>EGP = rates ''EGP'', SAR = rates ''SAR'', USD = 1\<rparr>, [CurrentQuery])"
  by (simp add: getCurrentExchangeRates_def getCurrentExchangeRates_try_def)

lemma getCurrentExchangeRates_failed:
  "currentFailed (current src) \<Longrightarrow>
   getCurrentExchangeRates src = (Inr fallbackRates, [CurrentQuery])"
  by (auto simp: getCurrentExchangeRates_def getCurrentExchangeRates_try_def currentFailed_def
      split: current_reply.splits option.splits)

lemma getCurrentExchangeRates_returns:
  "\<exists>r. getCurrentExchangeRates src = (Inr r, [CurrentQuery])"
  by (auto simp: getCurrentExchangeRates_def split: sum.splits)

lemma getHistoricalExchangeRates_ok:
  "historical src (toISODate d) = HData (Some ''success'') (Some rates) \<Longrightarrow>
   getHistoricalExchangeRates toISODate src d =
     (Inr \<lparr>EGP = rates ''EGP'', SAR = rates ''SAR'', USD = 1\<rparr>, [HistoricalQuery (toISODate d)])"
  by (simp add: getHistoricalExchangeRates_def getHistoricalExchangeRates_try_def)

lemma getHistoricalExchangeRates_failed:
  assumes "historicalFailed (historical src (toISODate d))"
  shows "getHistoricalExchangeRates toISODate src d =
     (fst (getCurrentExchangeRates src), [HistoricalQuery (toISODate d), CurrentQuery])"
proof -
  obtain r where r: "getCurrentExchangeRates src = (Inr r, [CurrentQuery])"
    using getCurrentExchangeRates_returns by blast
  show ?thesis
    using assms
    by (auto simp: getHistoricalExchangeRates_def getHistoricalExchangeRates_try_def r
        historicalFailed_def split: historical_reply.splits option.splits)
qed

lemma getHistoricalExchangeRates_returns:
  "\<exists>r qs. getHistoricalExchangeRates toISODate src d = (Inr r, qs)"
proof (cases "historicalFailed (historical src (toISODate d))")
  case True
  then show ?thesis
    using getHistoricalExchangeRates_failed [of src toISODate d]
      getCurrentExchangeRates_returns [of src]
    by auto
next
  case False
  then show ?thesis
    using getHistoricalExchangeRates_ok [of src toISODate d] by (auto simp: historicalFailed_iff)
qed

lemma getHistoricalExchangeRates_queries:
  "\<exists>r rest. getHistoricalExchangeRates toISODate src d =
              (Inr r, HistoricalQuery (toISODate d) # rest)"
proof (cases "historicalFailed (historical src (toISODate d))")
  case True
  then show ?thesis
    using getHistoricalExchangeRates_failed [of src toISODate d]
      getCurrentExchangeRates_returns [of src]
    by auto
next
  case False
  then show ?thesis
    using getHistoricalExchangeRates_ok [of src toISODate d] by (auto simp: historicalFailed_iff)
qed

lemma usable_iff:
  "usable \<lparr>EGP = a, SAR = b, USD = 1\<rparr> \<longleftrightarrow>
     (\<exists>e s. a = Some e \<and> 0 < e \<and> b = Some s \<and> 0 < s)"
  by (cases a; cases b) (simp_all add: usable_def)

subsection \<open>The cache\<close>

lemma resolveExchangeRates_hit:
  "cache (toISODate d) = Some r \<Longrightarrow>
   resolveExchangeRates toISODate src cache d = (Inr r, cache, [])"
  by (simp add: resolveExchangeRates_def)

lemma resolveExchangeRates_miss:
  assumes "cache (toISODate d) = None"
    and "getHistoricalExchangeRates toISODate src d = (Inr r, qs)"
  shows "resolveExchangeRates toISODate src cache d = (Inr r, cache(toISODate d \<mapsto> r), qs)"
  using assms by (simp add: resolveExchangeRates_def)

lemma resolveExchangeRates_twice:
  assumes "resolveExchangeRates toISODate src cache d = (res, cache1, qs1)"
  shows "\<exists>r. res = Inr r
           \<and> cache1 (toISODate d) = Some r
           \<and> (cache (toISODate d) = None \<longrightarrow>
                 getHistoricalExchangeRates toISODate src d = (Inr r, qs1)
                 \<and> cache1 = cache(toISODate d \<mapsto> r))
           \<and> resolveExchangeRates toISODate src' cache1 d = (Inr r, cache1, [])"
proof (cases "cache (toISODate d)")
  case None
  obtain r qs where h: "getHistoricalExchangeRates toISODate src d = (Inr r, qs)"
    using getHistoricalExchangeRates_returns by blast
  have "resolveExchangeRates toISODate src cache d = (Inr r, cache(toISODate d \<mapsto> r), qs)"
    using None h by (rule resolveExchangeRates_miss)
  with assms have eq: "res = Inr r" "cache1 = cache(toISODate d \<mapsto> r)" "qs1 = qs"
    by simp_all
  have stored: "cache1 (toISODate d) = Some r"
    by (simp add: eq(2))
  have again: "resolveExchangeRates toISODate src' cache1 d = (Inr r, cache1, [])"
    using stored by (rule resolveExchangeRates_hit)
  show ?thesis
    using eq stored again h by blast
next
  case (Some r)
  have "resolveExchangeRates toISODate src cache d = (Inr r, cache, [])"
    using Some by (rule resolveExchangeRates_hit)
  with assms have eq: "res = Inr r" "cache1 = cache"
    by simp_all
  have stored: "cache1 (toISODate d) = Some r"
    using Some by (simp add: eq(2))
  have again: "resolveExchangeRates toISODate src' cache1 d = (Inr r, cache1, [])"
    using stored by (rule resolveExchangeRates_hit)
  show ?thesis
    using eq(1) stored again Some eq(2) by simp
qed

subsection \<open>The calculation with resolved rates\<close>

lemma cashFromRates_resolved:
  assumes "hijriToGregorian (selectedDate app) = Inr d"
    and "resolveExchangeRates toISODate src (exchangeRateCache app) d = (Inr r, cache, qs)"
  shows "cashFromRates toISODate src app cE cS cU =
           (Inr (cashWithRates (country app) r cE cS cU), cache, qs)"
  using assms by (simp add: cashFromRates_def)

lemma calculateZakah_resolved:
  assumes "hijriToGregorian (selectedDate app) = Inr d"
    and "resolveExchangeRates toISODate src (exchangeRateCache app) d = (Inr r, cache, qs)"
    and "cashWithRates (country app) r (orZero (currency_egp page)) (orZero (currency_sar page))
           (orZero (currency_usd page)) = Some cash"
  shows "calculateZakah toISODate src app page =
     (Results
        \<lparr>totalGold = orZero (gold_18k page) * (18 / 24) + orZero (gold_21k page) * (21 / 24)
                       + orZero (gold_24k page),
         goldValue = (orZero (gold_18k page) * (18 / 24) + orZero (gold_21k page) * (21 / 24)
                       + orZero (gold_24k page)) * goldPrice app,
         totalCash = cash,
         totalWealth =
           nadd (Num ((orZero (gold_18k page) * (18 / 24) + orZero (gold_21k page) * (21 / 24)
                       + orZero (gold_24k page)) * goldPrice app)) cash,
         zakahAmount =
           nmul (nadd (Num ((orZero (gold_18k page) * (18 / 24) + orZero (gold_21k page) * (21 / 24)
                       + orZero (gold_24k page)) * goldPrice app)) cash) (Num 0.025)\<rparr>,
      app\<lparr>exchangeRateCache := cache\<rparr>, qs)"
  unfolding calculateZakah_def Let_def
  by (simp add: cashFromRates_resolved [OF assms(1) assms(2)] assms(3) displayResults_def)

lemma calculateZakah_with_rates:
  assumes "hijriToGregorian (selectedDate app) = Inr d"
    and "resolveExchangeRates toISODate src (exchangeRateCache app) d = (Inr r, cache, qs)"
  shows "calculateZakah toISODate src app page =
     ((case cashWithRates (country app) r (orZero (currency_egp page))
              (orZero (currency_sar page)) (orZero (currency_usd page)) of
         None \<Rightarrow> ErrorMessage
       | Some cash \<Rightarrow>
           Results
             \<lparr>totalGold = orZero (gold_18k page) * (18 / 24) + orZero (gold_21k page) * (21 / 24)
                            + orZero (gold_24k page),
              goldValue = (orZero (gold_18k page) * (18 / 24) + orZero (gold_21k page) * (21 / 24)
                            + orZero (gold_24k page)) * goldPrice app,
              totalCash = cash,
              totalWealth =
                nadd (Num ((orZero (gold_18k page) * (18 / 24)
                            + orZero (gold_21k page) * (21 / 24)
                            + orZero (gold_24k page)) * goldPrice app)) cash,
              zakahAmount =
                nmul (nadd (Num ((orZero (gold_18k page) * (18 / 24)
                            + orZero (gold_21k page) * (21 / 24)
                            + orZero (gold_24k page)) * goldPrice app)) cash) (Num 0.025)\<rparr>),
      app\<lparr>exchangeRateCache := cache\<rparr>, qs)"
  unfolding calculateZakah_def Let_def
  by (simp add: cashFromRates_resolved [OF assms(1) assms(2)] displayResults_def
      split: option.splits)

lemma cashWithRates_EGP:
  "EGP r = Some e \<Longrightarrow> SAR r = Some s \<Longrightarrow> s \<noteq> 0 \<Longrightarrow>
   cashWithRates ''EGP'' r cE cS cU = Some (Num (cE + cS * (e / s) + cU * e))"
  by (simp add: cashWithRates_def toNumber_def)

lemma cashWithRates_SAR:
  "EGP r = Some e \<Longrightarrow> SAR r = Some s \<Longrightarrow> e \<noteq> 0 \<Longrightarrow>
   cashWithRates ''SAR'' r cE cS cU = Some (Num (cE * (s / e) + cS + cU * s))"
  by (simp add: cashWithRates_def toNumber_def)

lemma cashWithRates_EGP_broken:
  "EGP r = None \<or> SAR r = None \<or> SAR r = Some 0 \<Longrightarrow>
   cashWithRates ''EGP'' r cE cS cU = Some NonFinite"
  by (cases "EGP r"; cases "SAR r") (auto simp: cashWithRates_def toNumber_def)

lemma cashWithRates_SAR_broken:
  "EGP r = None \<or> SAR r = None \<or> EGP r = Some 0 \<Longrightarrow>
   cashWithRates ''SAR'' r cE cS cU = Some NonFinite"
  by (cases "EGP r"; cases "SAR r") (auto simp: cashWithRates_def toNumber_def)

lemma calculateZakah_broken_rates:
  assumes "hijriToGregorian (selectedDate app) = Inr d"
    and "resolveExchangeRates toISODate src (exchangeRateCache app) d = (Inr r, cache, qs)"
    and "cashWithRates (country app) r (orZero (currency_egp page)) (orZero (currency_sar page))
           (orZero (currency_usd page)) = Some NonFinite"
  shows "\<exists>res. fst (calculateZakah toISODate src app page) = Results res
           \<and> totalCash res = NonFinite \<and> totalWealth res = NonFinite
           \<and> zakahAmount res = NonFinite"
  using calculateZakah_resolved [OF assms] by simp

section \<open>The claims on rates and on the calculation\<close>

subsection \<open>The fallback chain\<close>

text \<open>
  C2, as the code has it: \<open>getHistoricalExchangeRates\<close> asks the historical service once;
  only when that fails does it ask the current service, once; only when that fails too
  does it return the constant EGP 48.0, SAR 3.75, USD 1, which is usable (all rates
  present and positive). It never raises. The rates of a service that answered are
  returned as they came.
\<close>

theorem rate_fallback_chain:
  "(\<not> historicalFailed (historical src (toISODate d)) \<longrightarrow>
      (\<exists>rates. historical src (toISODate d) = HData (Some ''success'') (Some rates)
         \<and> getHistoricalExchangeRates toISODate src d =
             (Inr \<lparr>EGP = rates ''EGP'', SAR = rates ''SAR'', USD = 1\<rparr>,
              [HistoricalQuery (toISODate d)])))
   \<and> (historicalFailed (historical src (toISODate d)) \<and> \<not> currentFailed (current src) \<longrightarrow>
      (\<exists>rates. current src = CData (Some rates)
         \<and> getHistoricalExchangeRates toISODate src d =
             (Inr \<lparr>EGP = rates ''EGP'', SAR = rates ''SAR'', USD = 1\<rparr>,
              [HistoricalQuery (toISODate d), CurrentQuery])))
   \<and> (historicalFailed (historical src (toISODate d)) \<and> currentFailed (current src) \<longrightarrow>
      getHistoricalExchangeRates toISODate src d =
        (Inr \<lparr>EGP = Some 48.0, SAR = Some 3.75, USD = 1\<rparr>,
         [HistoricalQuery (toISODate d), CurrentQuery])
      \<and> usable \<lparr>EGP = Some 48.0, SAR = Some 3.75, USD = 1\<rparr>)
   \<and> (\<exists>r qs. getHistoricalExchangeRates toISODate src d = (Inr r, qs))"
proof -
  have a: "\<exists>rates. historical src (toISODate d) = HData (Some ''success'') (Some rates)
         \<and> getHistoricalExchangeRates toISODate src d =
             (Inr \<lparr>EGP = rates ''EGP'', SAR = rates ''SAR'', USD = 1\<rparr>,
              [HistoricalQuery (toISODate d)])"
    if "\<not> historicalFailed (historical src (toISODate d))"
    using that getHistoricalExchangeRates_ok [of src toISODate d]
    by (auto simp: historicalFailed_iff)
  have b: "\<exists>rates. current src = CData (Some rates)
         \<and> getHistoricalExchangeRates toISODate src d =
             (Inr \<lparr>EGP = rates ''EGP'', SAR = rates ''SAR'', USD = 1\<rparr>,
              [HistoricalQuery (toISODate d), CurrentQuery])"
    if "historicalFailed (historical src (toISODate d)) \<and> \<not> currentFailed (current src)"
  proof -
    from that obtain rates where c: "current src = CData (Some rates)"
      by (auto simp: currentFailed_iff)
    show ?thesis
      using that getHistoricalExchangeRates_failed [of src toISODate d]
        getCurrentExchangeRates_ok [OF c] c
      by simp
  qed
  have c: "getHistoricalExchangeRates toISODate src d =
        (Inr \<lparr>EGP = Some 48.0, SAR = Some 3.75, USD = 1\<rparr>,
         [HistoricalQuery (toISODate d), CurrentQuery])"
    if "historicalFailed (historical src (toISODate d)) \<and> currentFailed (current src)"
    using that getHistoricalExchangeRates_failed [of src toISODate d]
      getCurrentExchangeRates_failed [of src]
    by (simp add: fallbackRates_def)
  have u: "usable \<lparr>EGP = Some 48.0, SAR = Some 3.75, USD = 1\<rparr>"
    by (simp add: usable_def)
  from a b c u getHistoricalExchangeRates_returns [of toISODate src d] show ?thesis
    by blast
qed

text \<open>
  The three stages: the historical service answers; it answers 404 and the current
  service answers; neither can be reached.
\<close>

theorem rate_fallback_chain_witness:
  "getHistoricalExchangeRates (\<lambda>d. ''2024-07-08'')
     \<lparr>historical = (\<lambda>s. HData (Some ''success'') (Some [''EGP'' \<mapsto> 48.2, ''SAR'' \<mapsto> 3.75])),
      current = CFetchFailed\<rparr> (newDate 2024 6 8)
     = (Inr \<lparr>EGP = Some 48.2, SAR = Some 3.75, USD = 1\<rparr>, [HistoricalQuery ''2024-07-08''])
   \<and> getHistoricalExchangeRates (\<lambda>d. ''2024-07-08'')
     \<lparr>historical = (\<lambda>s. HNotOk 404), current = CData (Some [''EGP'' \<mapsto> 50, ''SAR'' \<mapsto> 3.75])\<rparr>
       (newDate 2024 6 8)
     = (Inr \<lparr>EGP = Some 50, SAR = Some 3.75, USD = 1\<rparr>,
        [HistoricalQuery ''2024-07-08'', CurrentQuery])
   \<and> getHistoricalExchangeRates (\<lambda>d. ''2024-07-08'')
     \<lparr>historical = (\<lambda>s. HFetchFailed), current = CFetchFailed\<rparr> (newDate 2024 6 8)
     = (Inr \<lparr>EGP = Some 48.0, SAR = Some 3.75, USD = 1\<rparr>,
        [HistoricalQuery ''2024-07-08'', CurrentQuery])"
  using
    rate_fallback_chain [of "\<lparr>historical = (\<lambda>s. HData (Some ''success'')
        (Some [''EGP'' \<mapsto> 48.2, ''SAR'' \<mapsto> 3.75])), current = CFetchFailed\<rparr>"
      "\<lambda>d. ''2024-07-08''" "newDate 2024 6 8"]
    rate_fallback_chain [of "\<lparr>historical = (\<lambda>s. HNotOk 404),
        current = CData (Some [''EGP'' \<mapsto> 50, ''SAR'' \<mapsto> 3.75])\<rparr>"
      "\<lambda>d. ''2024-07-08''" "newDate 2024 6 8"]
    rate_fallback_chain [of "\<lparr>historical = (\<lambda>s. HFetchFailed), current = CFetchFailed\<rparr>"
      "\<lambda>d. ''2024-07-08''" "newDate 2024 6 8"]
  by (simp add: historicalFailed_def currentFailed_def)

text \<open>
  The result is not always usable: a historical answer marked \<open>success\<close> whose rates
  have no EGP entry is returned with EGP \<open>undefined\<close>, and the current service is not asked.
\<close>

theorem getHistoricalExchangeRates_unusable_counterexample:
  "getHistoricalExchangeRates (\<lambda>d. ''2024-07-08'')
     \<lparr>historical = (\<lambda>s. HData (Some ''success'') (Some [''SAR'' \<mapsto> 3.75])),
      current = CData (Some [''EGP'' \<mapsto> 50, ''SAR'' \<mapsto> 3.75])\<rparr> (newDate 2024 6 8)
     = (Inr \<lparr>EGP = None, SAR = Some 3.75, USD = 1\<rparr>, [HistoricalQuery ''2024-07-08''])
   \<and> \<not> usable \<lparr>EGP = None, SAR = Some 3.75, USD = 1\<rparr>"
  by (simp add: getHistoricalExchangeRates_def getHistoricalExchangeRates_try_def usable_def)

subsection \<open>Caching\<close>

text \<open>
  C4, as the code has it: the cache stands in the callers of \<open>getHistoricalExchangeRates\<close>,
  not in it. \<open>calculateZakah\<close> for a chosen date looks the date's key up in the cache;
  when it is not there it calls \<open>getHistoricalExchangeRates\<close>, sends the requests of that
  call and stores the RateSet returned under the key; when it is there it sends nothing
  and leaves the calculator as it is. Either way the figures shown are computed with the
  RateSet then found under the key. A second \<open>calculateZakah\<close> for the same date, whatever
  the services would answer then, computes its figures with that same RateSet, leaves
  the cache as it is and sends no request. \<open>getHistoricalExchangeRates\<close> itself sends a
  request to the historical service on every call.
\<close>

theorem calculateZakah_cached:
  assumes "hijriToGregorian (selectedDate app) = Inr d"
    and "calculateZakah toISODate src app page = (s, app1, qs)"
  shows
    "(let figures = (\<lambda>r a p.
         (let gold = orZero (gold_18k p) * (18 / 24) + orZero (gold_21k p) * (21 / 24)
                       + orZero (gold_24k p);
              value = gold * goldPrice a
          in case cashWithRates (country a) r (orZero (currency_egp p))
                    (orZero (currency_sar p)) (orZero (currency_usd p)) of
               None \<Rightarrow> ErrorMessage
             | Some cash \<Rightarrow>
                 Results \<lparr>totalGold = gold, goldValue = value, totalCash = cash,
                            totalWealth = nadd (Num value) cash,
                            zakahAmount = nmul (nadd (Num value) cash) (Num 0.025)\<rparr>))
      in \<exists>r. exchangeRateCache app1 (toISODate d) = Some r
           \<and> app1 = app\<lparr>exchangeRateCache := exchangeRateCache app1\<rparr>
           \<and> s = figures r app page
           \<and> (exchangeRateCache app (toISODate d) = None \<longrightarrow>
                 getHistoricalExchangeRates toISODate src d = (Inr r, qs)
                 \<and> exchangeRateCache app1 = (exchangeRateCache app)(toISODate d \<mapsto> r))
           \<and> (exchangeRateCache app (toISODate d) \<noteq> None \<longrightarrow>
                 exchangeRateCache app (toISODate d) = Some r \<and> app1 = app \<and> qs = [])
           \<and> calculateZakah toISODate src' app1 page' = (figures r app1 page', app1, [])
           \<and> (\<exists>r' rest. getHistoricalExchangeRates toISODate src' d =
                            (Inr r', HistoricalQuery (toISODate d) # rest)))"
proof -
  obtain res cache1 qs1 where
    first: "resolveExchangeRates toISODate src (exchangeRateCache app) d = (res, cache1, qs1)"
    by (cases "resolveExchangeRates toISODate src (exchangeRateCache app) d") auto
  from resolveExchangeRates_twice [OF first, of src'] obtain r where
    all: "res = Inr r
           \<and> cache1 (toISODate d) = Some r
           \<and> (exchangeRateCache app (toISODate d) = None \<longrightarrow>
                 getHistoricalExchangeRates toISODate src d = (Inr r, qs1)
                 \<and> cache1 = (exchangeRateCache app)(toISODate d \<mapsto> r))
           \<and> resolveExchangeRates toISODate src' cache1 d = (Inr r, cache1, [])" ..
  have r: "res = Inr r" "cache1 (toISODate d) = Some r"
    using all by simp_all
  have miss: "exchangeRateCache app (toISODate d) = None \<longrightarrow>
                 getHistoricalExchangeRates toISODate src d = (Inr r, qs1)
                 \<and> cache1 = (exchangeRateCache app)(toISODate d \<mapsto> r)"
    using all by (elim conjE)
  have again: "resolveExchangeRates toISODate src' cache1 d = (Inr r, cache1, [])"
    using all by (elim conjE)
  have first': "resolveExchangeRates toISODate src (exchangeRateCache app) d = (Inr r, cache1, qs1)"
    using first r(1) by simp
  note one = calculateZakah_with_rates [OF assms(1) first', of page]
  have app1: "app1 = app\<lparr>exchangeRateCache := cache1\<rparr>" and qs: "qs = qs1"
    using one assms(2) by simp_all
  have date1: "hijriToGregorian (selectedDate app1) = Inr d"
    using assms(1) by (simp add: app1)
  have again1: "resolveExchangeRates toISODate src' (exchangeRateCache app1) d
                  = (Inr r, cache1, [])"
    using again by (simp add: app1)
  note two = calculateZakah_with_rates [OF date1 again1, of page']
  have same: "app1\<lparr>exchangeRateCache := cache1\<rparr> = app1"
    by (simp add: app1)
  have hit: "exchangeRateCache app (toISODate d) = Some r \<and> app1 = app \<and> qs = []"
    if "exchangeRateCache app (toISODate d) \<noteq> None"
  proof -
    from that obtain r0 where r0: "exchangeRateCache app (toISODate d) = Some r0" by auto
    have "resolveExchangeRates toISODate src (exchangeRateCache app) d
            = (Inr r0, exchangeRateCache app, [])"
      using r0 by (rule resolveExchangeRates_hit)
    with first' have "r0 = r" "cache1 = exchangeRateCache app" "qs1 = []" by simp_all
    then show ?thesis using r0 app1 qs by simp
  qed
  have c1: "exchangeRateCache app1 (toISODate d) = Some r"
    using r(2) by (simp add: app1)
  have c2: "app1 = app\<lparr>exchangeRateCache := exchangeRateCache app1\<rparr>"
    by (simp add: app1)
  have c3: "exchangeRateCache app (toISODate d) = None \<longrightarrow>
                 getHistoricalExchangeRates toISODate src d = (Inr r, qs)
                 \<and> exchangeRateCache app1 = (exchangeRateCache app)(toISODate d \<mapsto> r)"
    using miss by (simp add: app1 qs)
  have c4: "s = (case cashWithRates (country app) r (orZero (currency_egp page))
              (orZero (currency_sar page)) (orZero (currency_usd page)) of
         None \<Rightarrow> ErrorMessage
       | Some cash \<Rightarrow>
           Results
             \<lparr>totalGold = orZero (gold_18k page) * (18 / 24) + orZero (gold_21k page) * (21 / 24)
                            + orZero (gold_24k page),
              goldValue = (orZero (gold_18k page) * (18 / 24) + orZero (gold_21k page) * (21 / 24)
                            + orZero (gold_24k page)) * goldPrice app,
              totalCash = cash,
              totalWealth =
                nadd (Num ((orZero (gold_18k page) * (18 / 24)
                            + orZero (gold_21k page) * (21 / 24)
                            + orZero (gold_24k page)) * goldPrice app)) cash,
              zakahAmount =
                nmul (nadd (Num ((orZero (gold_18k page) * (18 / 24)
                            + orZero (gold_21k page) * (21 / 24)
                            + orZero (gold_24k page)) * goldPrice app)) cash) (Num 0.025)\<rparr>)"
    using one assms(2) by simp
  have c5: "calculateZakah toISODate src' app1 page' =
     ((case cashWithRates (country app1) r (orZero (currency_egp page'))
              (orZero (currency_sar page')) (orZero (currency_usd page')) of
         None \<Rightarrow> ErrorMessage
       | Some cash \<Rightarrow>
           Results
             \<lparr>totalGold = orZero (gold_18k page') * (18 / 24) + orZero (gold_21k page') * (21 / 24)
                            + orZero (gold_24k page'),
              goldValue = (orZero (gold_18k page') * (18 / 24) + orZero (gold_21k page') * (21 / 24)
                            + orZero (gold_24k page')) * goldPrice app1,
              totalCash = cash,
              totalWealth =
                nadd (Num ((orZero (gold_18k page') * (18 / 24)
                            + orZero (gold_21k page') * (21 / 24)
                            + orZero (gold_24k page')) * goldPrice app1)) cash,
              zakahAmount =
                nmul (nadd (Num ((orZero (gold_18k page') * (18 / 24)
                            + orZero (gold_21k page') * (21 / 24)
                            + orZero (gold_24k page')) * goldPrice app1)) cash) (Num 0.025)\<rparr>),
      app1, [])"
    using two by (simp only: same)
  note c6 = getHistoricalExchangeRates_queries [of toISODate src' d]
  show ?thesis
    unfolding Let_def
    apply (rule exI [of _ r])
    apply (intro conjI)
          apply (rule c1)
         apply (rule c2)
        apply (rule c4)
       apply (rule c3)
      apply (rule impI, erule hit)
     apply (rule c5)
    apply (rule c6)
    done
qed

text \<open>
  After a first calculation that stored the historical rates of 8 July 2024: a second
  one, while both services are down, with the same figures and no request.
\<close>

theorem calculateZakah_cached_witness:
  "calculateZakah (\<lambda>d. ''2024-07-08'')
     \<lparr>historical = (\<lambda>s. HFetchFailed), current = CFetchFailed\<rparr>
     \<lparr>country = ''EGP'',
      selectedDate = Some \<lparr>hijriYear = 1446, hijriMonth = 1, hijriDay = 1\<rparr>,
      goldPrice = 3500,
      exchangeRateCache =
        (\<lambda>k. None)(''2024-07-08'' \<mapsto> \<lparr>EGP = Some 48, SAR = Some 3.75, USD = 1\<rparr>)\<rparr>
     \<lparr>gold_18k = None, gold_21k = None, gold_24k = None,
      currency_egp = Some 1000, currency_sar = Some 100, currency_usd = Some 0,
      calculate_btn_disabled = False, calculate_btn_text = CalculateZakah\<rparr>
   = (Results \<lparr>totalGold = 0, goldValue = 0, totalCash = Num 2280,
                totalWealth = Num 2280, zakahAmount = Num 57\<rparr>,
      \<lparr>country = ''EGP'',
       selectedDate = Some \<lparr>hijriYear = 1446, hijriMonth = 1, hijriDay = 1\<rparr>,
       goldPrice = 3500,
       exchangeRateCache =
         (\<lambda>k. None)(''2024-07-08'' \<mapsto> \<lparr>EGP = Some 48, SAR = Some 3.75, USD = 1\<rparr>)\<rparr>,
      [])"
proof -
  let ?iso = "\<lambda>d::Date. ''2024-07-08''"
  let ?up = "\<lparr>historical = (\<lambda>s. HData (Some ''success'') (Some [''EGP'' \<mapsto> 48, ''SAR'' \<mapsto> 3.75])),
              current = CFetchFailed\<rparr>"
  let ?down = "\<lparr>historical = (\<lambda>s. HFetchFailed), current = CFetchFailed\<rparr>"
  let ?r = "\<lparr>EGP = Some 48, SAR = Some 3.75, USD = 1\<rparr>"
  let ?app = "\<lparr>country = ''EGP'',
      selectedDate = Some \<lparr>hijriYear = 1446, hijriMonth = 1, hijriDay = 1\<rparr>,
      goldPrice = 3500, exchangeRateCache = (\<lambda>k. None)\<rparr>"
  let ?app1 = "\<lparr>country = ''EGP'',
      selectedDate = Some \<lparr>hijriYear = 1446, hijriMonth = 1, hijriDay = 1\<rparr>,
      goldPrice = 3500, exchangeRateCache = (\<lambda>k. None)(''2024-07-08'' \<mapsto> ?r)\<rparr>"
  let ?page = "\<lparr>gold_18k = None, gold_21k = None, gold_24k = None,
      currency_egp = Some 1000, currency_sar = Some 100, currency_usd = Some 0,
      calculate_btn_disabled = False, calculate_btn_text = CalculateZakah\<rparr>"
  let ?shown = "Results \<lparr>totalGold = 0, goldValue = 0, totalCash = Num 2280,
                totalWealth = Num 2280, zakahAmount = Num 57\<rparr>"
  have date: "hijriToGregorian (selectedDate ?app) = Inr (newDate 2024 6 8)"
    using hijriToGregorian_referenceHijri by simp
  have rates: "resolveExchangeRates ?iso ?up (exchangeRateCache ?app) (newDate 2024 6 8)
                 = (Inr ?r, (\<lambda>k. None)(''2024-07-08'' \<mapsto> ?r), [HistoricalQuery ''2024-07-08''])"
    by (simp add: resolveExchangeRates_def getHistoricalExchangeRates_def
        getHistoricalExchangeRates_try_def)
  have first: "calculateZakah ?iso ?up ?app ?page = (?shown, ?app1, [HistoricalQuery ''2024-07-08''])"
    using calculateZakah_with_rates [OF date rates, of ?page]
    by (simp add: cashWithRates_def toNumber_def orZero_def)
  show ?thesis
    using calculateZakah_cached [OF date first, of ?down ?page]
    by (clarsimp simp: Let_def orZero_def cashWithRates_def toNumber_def)
qed

text \<open>
  \<open>getHistoricalExchangeRates\<close> does not read the cache: after a calculation has stored
  the rates of 8 July 2024, a call for that date asks the historical service again.
\<close>

theorem getHistoricalExchangeRates_no_cache_counterexample:
  "exchangeRateCache (fst (snd (calculateZakah (\<lambda>d. ''2024-07-08'')
     \<lparr>historical = (\<lambda>s. HData (Some ''success'') (Some [''EGP'' \<mapsto> 48, ''SAR'' \<mapsto> 3.75])),
      current = CFetchFailed\<rparr>
     \<lparr>country = ''EGP'',
      selectedDate = Some \<lparr>hijriYear = 1446, hijriMonth = 1, hijriDay = 1\<rparr>,
      goldPrice = 3500, exchangeRateCache = (\<lambda>k. None)\<rparr>
     \<lparr>gold_18k = None, gold_21k = None, gold_24k = None,
      currency_egp = Some 1000, currency_sar = Some 100, currency_usd = Some 0,
      calculate_btn_disabled = False, calculate_btn_text = CalculateZakah\<rparr>))) ''2024-07-08''
     = Some \<lparr>EGP = Some 48, SAR = Some 3.75, USD = 1\<rparr>
   \<and> getHistoricalExchangeRates (\<lambda>d. ''2024-07-08'')
     \<lparr>historical = (\<lambda>s. HData (Some ''success'') (Some [''EGP'' \<mapsto> 48, ''SAR'' \<mapsto> 3.75])),
      current = CFetchFailed\<rparr> (newDate 2024 6 8)
     = (Inr \<lparr>EGP = Some 48, SAR = Some 3.75, USD = 1\<rparr>, [HistoricalQuery ''2024-07-08''])"
proof -
  let ?iso = "\<lambda>d::Date. ''2024-07-08''"
  let ?up = "\<lparr>historical = (\<lambda>s. HData (Some ''success'') (Some [''EGP'' \<mapsto> 48, ''SAR'' \<mapsto> 3.75])),
              current = CFetchFailed\<rparr>"
  let ?r = "\<lparr>EGP = Some 48, SAR = Some 3.75, USD = 1\<rparr>"
  let ?app = "\<lparr>country = ''EGP'',
      selectedDate = Some \<lparr>hijriYear = 1446, hijriMonth = 1, hijriDay = 1\<rparr>,
      goldPrice = 3500, exchangeRateCache = (\<lambda>k. None)\<rparr>"
  let ?page = "\<lparr>gold_18k = None, gold_21k = None, gold_24k = None,
      currency_egp = Some 1000, currency_sar = Some 100, currency_usd = Some 0,
      calculate_btn_disabled = False, calculate_btn_text = CalculateZakah\<rparr>"
  have date: "hijriToGregorian (selectedDate ?app) = Inr (newDate 2024 6 8)"
    using hijriToGregorian_referenceHijri by simp
  have query: "getHistoricalExchangeRates ?iso ?up (newDate 2024 6 8)
                 = (Inr ?r, [HistoricalQuery ''2024-07-08''])"
    by (simp add: getHistoricalExchangeRates_def getHistoricalExchangeRates_try_def)
  have rates: "resolveExchangeRates ?iso ?up (exchangeRateCache ?app) (newDate 2024 6 8)
                 = (Inr ?r, (\<lambda>k. None)(''2024-07-08'' \<mapsto> ?r), [HistoricalQuery ''2024-07-08''])"
    by (simp add: resolveExchangeRates_def getHistoricalExchangeRates_def
        getHistoricalExchangeRates_try_def)
  show ?thesis
    using calculateZakah_with_rates [OF date rates, of ?page] query by simp
qed

subsection \<open>The figures of the calculation\<close>

text \<open>
  C3: with a chosen date whose rates resolve to positive EGP and SAR rates \<open>e\<close> and \<open>s\<close>,
  \<open>calculateZakah\<close> shows: for the target EGP the cash
  \<open>EGP + SAR * (e / s) + USD * e\<close>, for the target SAR \<open>EGP * (s / e) + SAR + USD * s\<close>;
  the total wealth, the gold value plus the cash; and the zakah, the total wealth times
  0.025. Numbers are real numbers here.
\<close>

theorem calculateZakah_formula:
  assumes "hijriToGregorian (selectedDate app) = Inr d"
    and "resolveExchangeRates toISODate src (exchangeRateCache app) d = (Inr r, cache, qs)"
    and "EGP r = Some e" and "0 < e" and "SAR r = Some s" and "0 < s"
    and "country app = ''EGP'' \<or> country app = ''SAR''"
  shows "fst (calculateZakah toISODate src app page) =
     (let gold = orZero (gold_18k page) * (18 / 24) + orZero (gold_21k page) * (21 / 24)
                   + orZero (gold_24k page);
          value = gold * goldPrice app;
          cE = orZero (currency_egp page);
          cS = orZero (currency_sar page);
          cU = orZero (currency_usd page);
          cash = (if country app = ''EGP'' then cE + cS * (e / s) + cU * e
                  else cE * (s / e) + cS + cU * s);
          wealth = value + cash
      in Results \<lparr>totalGold = gold, goldValue = value, totalCash = Num cash,
                   totalWealth = Num wealth, zakahAmount = Num (wealth * 0.025)\<rparr>)"
proof (cases "country app = ''EGP''")
  case True
  have "cashWithRates (country app) r (orZero (currency_egp page)) (orZero (currency_sar page))
          (orZero (currency_usd page))
        = Some (Num (orZero (currency_egp page) + orZero (currency_sar page) * (e / s)
                     + orZero (currency_usd page) * e))"
    using assms(3,5,6) True by (simp add: cashWithRates_EGP)
  from calculateZakah_resolved [OF assms(1) assms(2) this] True show ?thesis
    by (simp add: Let_def)
next
  case False
  then have sar: "country app = ''SAR''" using assms(7) by simp
  have "cashWithRates (country app) r (orZero (currency_egp page)) (orZero (currency_sar page))
          (orZero (currency_usd page))
        = Some (Num (orZero (currency_egp page) * (s / e) + orZero (currency_sar page)
                     + orZero (currency_usd page) * s))"
    using assms(3,4,5) sar by (simp add: cashWithRates_SAR)
  from calculateZakah_resolved [OF assms(1) assms(2) this] sar show ?thesis
    by (simp add: Let_def)
qed

text \<open>
  The rates EGP 48, SAR 3.75, USD 1, the cash EGP 1000, SAR 100, USD 0 and no gold: the
  cash is 2280 and the zakah 57.
\<close>

theorem calculateZakah_formula_witness:
  "fst (calculateZakah (\<lambda>d. ''2024-07-08'')
     \<lparr>historical = (\<lambda>s. HData (Some ''success'') (Some [''EGP'' \<mapsto> 48, ''SAR'' \<mapsto> 3.75])),
      current = CFetchFailed\<rparr>
     \<lparr>country = ''EGP'',
      selectedDate = Some \<lparr>hijriYear = 1446, hijriMonth = 1, hijriDay = 1\<rparr>,
      goldPrice = 3500, exchangeRateCache = (\<lambda>k. None)\<rparr>
     \<lparr>gold_18k = None, gold_21k = None, gold_24k = None,
      currency_egp = Some 1000, currency_sar = Some 100, currency_usd = Some 0,
      calculate_btn_disabled = False, calculate_btn_text = CalculateZakah\<rparr>)
   = Results \<lparr>totalGold = 0, goldValue = 0, totalCash = Num 2280,
               totalWealth = Num 2280, zakahAmount = Num 57\<rparr>"
proof -
  have rates:
    "resolveExchangeRates (\<lambda>d. ''2024-07-08'')
       \<lparr>historical = (\<lambda>s. HData (Some ''success'') (Some [''EGP'' \<mapsto> 48, ''SAR'' \<mapsto> 3.75])),
        current = CFetchFailed\<rparr>
       (\<lambda>k. None) (newDate 2024 6 8)
     = (Inr \<lparr>EGP = Some 48, SAR = Some 3.75, USD = 1\<rparr>,
        (\<lambda>k. None)(''2024-07-08'' \<mapsto> \<lparr>EGP = Some 48, SAR = Some 3.75, USD = 1\<rparr>),
        [HistoricalQuery ''2024-07-08''])"
    by (simp add: resolveExchangeRates_def getHistoricalExchangeRates_def
        getHistoricalExchangeRates_try_def)
  show ?thesis
    using calculateZakah_formula [of
        "\<lparr>country = ''EGP'',
          selectedDate = Some \<lparr>hijriYear = 1446, hijriMonth = 1, hijriDay = 1\<rparr>,
          goldPrice = 3500, exchangeRateCache = (\<lambda>k. None)\<rparr>"
        "newDate 2024 6 8" "\<lambda>d. ''2024-07-08''"
        "\<lparr>historical = (\<lambda>s. HData (Some ''success'') (Some [''EGP'' \<mapsto> 48, ''SAR'' \<mapsto> 3.75])),
          current = CFetchFailed\<rparr>"
        "\<lparr>EGP = Some 48, SAR = Some 3.75, USD = 1\<rparr>"
        "(\<lambda>k. None)(''2024-07-08'' \<mapsto> \<lparr>EGP = Some 48, SAR = Some 3.75, USD = 1\<rparr>)"
        "[HistoricalQuery ''2024-07-08'']" 48 "3.75"
        "\<lparr>gold_18k = None, gold_21k = None, gold_24k = None,
          currency_egp = Some 1000, currency_sar = Some 100, currency_usd = Some 0,
          calculate_btn_disabled = False, calculate_btn_text = CalculateZakah\<rparr>"]
      hijriToGregorian_referenceHijri rates
    by (simp add: orZero_def)
qed

subsection \<open>The gate before the calculation\<close>




subsection \<open>Rates are not validated\<close>

text \<open>
  C10: the rates of a historical answer marked \<open>success\<close> are returned as they are,
  whether or not EGP and SAR are there and positive. With such rates looked up for the
  chosen date, \<open>calculateZakah\<close> divides all the same: for the target EGP with EGP or SAR
  missing or SAR 0 (for the target SAR with EGP or SAR missing or EGP 0) it shows results
  whose cash, total wealth and zakah are not finite numbers.
\<close>

theorem getHistoricalExchangeRates_unvalidated:
  assumes "historical src (toISODate d) = HData (Some ''success'') (Some rates)"
  shows "getHistoricalExchangeRates toISODate src d =
           (Inr \<lparr>EGP = rates ''EGP'', SAR = rates ''SAR'', USD = 1\<rparr>,
            [HistoricalQuery (toISODate d)])
   \<and> (usable \<lparr>EGP = rates ''EGP'', SAR = rates ''SAR'', USD = 1\<rparr> \<longleftrightarrow>
        (\<exists>e s. rates ''EGP'' = Some e \<and> 0 < e \<and> rates ''SAR'' = Some s \<and> 0 < s))
   \<and> (hijriToGregorian (selectedDate app) = Inr d
        \<and> exchangeRateCache app (toISODate d) = None
        \<and> (country app = ''EGP''
              \<and> (rates ''EGP'' = None \<or> rates ''SAR'' = None \<or> rates ''SAR'' = Some 0)
            \<or> country app = ''SAR''
              \<and> (rates ''EGP'' = None \<or> rates ''SAR'' = None \<or> rates ''EGP'' = Some 0))
        \<longrightarrow> (\<exists>res. fst (calculateZakah toISODate src app page) = Results res
                \<and> totalCash res = NonFinite \<and> totalWealth res = NonFinite
                \<and> zakahAmount res = NonFinite))"
proof -
  let ?r = "\<lparr>EGP = rates ''EGP'', SAR = rates ''SAR'', USD = 1\<rparr>"
  have pass: "getHistoricalExchangeRates toISODate src d = (Inr ?r, [HistoricalQuery (toISODate d)])"
    using assms by (rule getHistoricalExchangeRates_ok)
  have inv: "usable ?r \<longleftrightarrow>
        (\<exists>e s. rates ''EGP'' = Some e \<and> 0 < e \<and> rates ''SAR'' = Some s \<and> 0 < s)"
    by (rule usable_iff)
  have calc: "\<exists>res. fst (calculateZakah toISODate src app page) = Results res
                \<and> totalCash res = NonFinite \<and> totalWealth res = NonFinite
                \<and> zakahAmount res = NonFinite"
    if date: "hijriToGregorian (selectedDate app) = Inr d"
      and miss: "exchangeRateCache app (toISODate d) = None"
      and broken: "country app = ''EGP''
              \<and> (rates ''EGP'' = None \<or> rates ''SAR'' = None \<or> rates ''SAR'' = Some 0)
            \<or> country app = ''SAR''
              \<and> (rates ''EGP'' = None \<or> rates ''SAR'' = None \<or> rates ''EGP'' = Some 0)"
  proof -
    have res: "resolveExchangeRates toISODate src (exchangeRateCache app) d =
                 (Inr ?r, (exchangeRateCache app)(toISODate d \<mapsto> ?r),
                  [HistoricalQuery (toISODate d)])"
      using miss pass by (rule resolveExchangeRates_miss)
    have cash: "cashWithRates (country app) ?r (orZero (currency_egp page))
                  (orZero (currency_sar page)) (orZero (currency_usd page)) = Some NonFinite"
      using broken
    proof
      assume "country app = ''EGP''
              \<and> (rates ''EGP'' = None \<or> rates ''SAR'' = None \<or> rates ''SAR'' = Some 0)"
      then show ?thesis by (simp add: cashWithRates_EGP_broken)
    next
      assume "country app = ''SAR''
              \<and> (rates ''EGP'' = None \<or> rates ''SAR'' = None \<or> rates ''EGP'' = Some 0)"
      then show ?thesis by (simp add: cashWithRates_SAR_broken)
    qed
    show ?thesis
      using date res cash by (rule calculateZakah_broken_rates)
  qed
  from pass inv calc show ?thesis by blast
qed

text \<open>A historical answer with a SAR rate of 0.\<close>

theorem getHistoricalExchangeRates_unvalidated_witness:
  "getHistoricalExchangeRates (\<lambda>d. ''2024-07-08'')
     \<lparr>historical = (\<lambda>s. HData (Some ''success'') (Some [''EGP'' \<mapsto> 48, ''SAR'' \<mapsto> 0])),
      current = CData (Some [''EGP'' \<mapsto> 50, ''SAR'' \<mapsto> 3.75])\<rparr> (newDate 2024 6 8)
     = (Inr \<lparr>EGP = Some 48, SAR = Some 0, USD = 1\<rparr>, [HistoricalQuery ''2024-07-08''])
   \<and> \<not> usable \<lparr>EGP = Some 48, SAR = Some 0, USD = 1\<rparr>
   \<and> (\<exists>res. fst (calculateZakah (\<lambda>d. ''2024-07-08'')
         \<lparr>historical = (\<lambda>s. HData (Some ''success'') (Some [''EGP'' \<mapsto> 48, ''SAR'' \<mapsto> 0])),
          current = CData (Some [''EGP'' \<mapsto> 50, ''SAR'' \<mapsto> 3.75])\<rparr>
         \<lparr>country = ''EGP'',
          selectedDate = Some \<lparr>hijriYear = 1446, hijriMonth = 1, hijriDay = 1\<rparr>,
          goldPrice = 3500, exchangeRateCache = (\<lambda>k. None)\<rparr>
         \<lparr>gold_18k = None, gold_21k = None, gold_24k = Some 10,
          currency_egp = Some 1000, currency_sar = Some 100, currency_usd = None,
          calculate_btn_disabled = False, calculate_btn_text = CalculateZakah\<rparr>) = Results res
        \<and> totalCash res = NonFinite \<and> totalWealth res = NonFinite
        \<and> zakahAmount res = NonFinite)"
  using getHistoricalExchangeRates_unvalidated [of
      "\<lparr>historical = (\<lambda>s. HData (Some ''success'') (Some [''EGP'' \<mapsto> 48, ''SAR'' \<mapsto> 0])),
        current = CData (Some [''EGP'' \<mapsto> 50, ''SAR'' \<mapsto> 3.75])\<rparr>"
      "\<lambda>d. ''2024-07-08''" "newDate 2024 6 8" "[''EGP'' \<mapsto> 48, ''SAR'' \<mapsto> 0]"
      "\<lparr>country = ''EGP'',
        selectedDate = Some \<lparr>hijriYear = 1446, hijriMonth = 1, hijriDay = 1\<rparr>,
        goldPrice = 3500, exchangeRateCache = (\<lambda>k. None)\<rparr>"
      "\<lparr>gold_18k = None, gold_21k = None, gold_24k = Some 10,
        currency_egp = Some 1000, currency_sar = Some 100, currency_usd = None,
        calculate_btn_disabled = False, calculate_btn_text = CalculateZakah\<rparr>"]
    hijriToGregorian_referenceHijri
  by simp

section \<open>Further properties of the calculation\<close>

text \<open>
  The gold figures of every result: the 24k equivalent is
  \<open>g18 * (18/24) + g21 * (21/24) + g24\<close>, and the gold value is that times the gold price.
\<close>

theorem calculateZakah_gold:
  assumes "fst (calculateZakah toISODate src app page) = Results res"
  shows "totalGold res = orZero (gold_18k page) * (18 / 24) + orZero (gold_21k page) * (21 / 24)
                           + orZero (gold_24k page)
         \<and> goldValue res = totalGold res * goldPrice app"
  using assms
  by (auto simp: calculateZakah_def Let_def displayResults_def
      split: prod.splits option.splits sum.splits)

text \<open>10 g of 18k and 5 g of 24k are 12.5 g of 24k.\<close>

theorem calculateZakah_gold_witness:
  "\<exists>res. fst (calculateZakah (\<lambda>d. ''2024-07-08'')
       \<lparr>historical = (\<lambda>s. HFetchFailed), current = CFetchFailed\<rparr>
       \<lparr>country = ''EGP'', selectedDate = None, goldPrice = 4000,
        exchangeRateCache = (\<lambda>k. None)\<rparr>
       \<lparr>gold_18k = Some 10, gold_21k = Some 0, gold_24k = Some 5,
        currency_egp = None, currency_sar = None, currency_usd = None,
        calculate_btn_disabled = False, calculate_btn_text = CalculateZakah\<rparr>) = Results res
     \<and> totalGold res = 12.5 \<and> goldValue res = 50000"
proof -
  have shown: "fst (calculateZakah (\<lambda>d. ''2024-07-08'')
       \<lparr>historical = (\<lambda>s. HFetchFailed), current = CFetchFailed\<rparr>
       \<lparr>country = ''EGP'', selectedDate = None, goldPrice = 4000,
        exchangeRateCache = (\<lambda>k. None)\<rparr>
       \<lparr>gold_18k = Some 10, gold_21k = Some 0, gold_24k = Some 5,
        currency_egp = None, currency_sar = None, currency_usd = None,
        calculate_btn_disabled = False, calculate_btn_text = CalculateZakah\<rparr>)
     = Results \<lparr>totalGold = 12.5, goldValue = 50000, totalCash = Num 0,
                 totalWealth = Num 50000, zakahAmount = Num 1250\<rparr>"
    by (simp add: calculateZakah_def cashFromRates_def hijriToGregorian_def
        cashWithSimpleRates_def displayResults_def orZero_def Let_def)
  show ?thesis
    using calculateZakah_gold [OF shown] shown by (simp add: orZero_def)
qed

text \<open>
  Without a chosen date \<open>hijriToGregorian\<close> throws inside the inner \<open>try\<close>: no request is
  sent, the cache stays as it is, and the cash is converted with the four fixed rates of
  the \<open>catch\<close> block. For a country other than EGP and SAR the cash total stays
  \<open>undefined\<close> and the error message is shown.
\<close>

theorem calculateZakah_without_date:
  "selectedDate app = None \<longrightarrow>
   snd (calculateZakah toISODate src app page) = (app, [])
   \<and> (country app = ''EGP'' \<longrightarrow>
        (\<exists>res. fst (calculateZakah toISODate src app page) = Results res
           \<and> totalCash res = Num (orZero (currency_egp page) + orZero (currency_sar page) * 12.8
                                   + orZero (currency_usd page) * 48)))
   \<and> (country app = ''SAR'' \<longrightarrow>
        (\<exists>res. fst (calculateZakah toISODate src app page) = Results res
           \<and> totalCash res = Num (orZero (currency_egp page) * 0.078 + orZero (currency_sar page)
                                   + orZero (currency_usd page) * 3.75)))
   \<and> (country app \<noteq> ''EGP'' \<and> country app \<noteq> ''SAR'' \<longrightarrow>
        fst (calculateZakah toISODate src app page) = ErrorMessage)"
  by (simp add: calculateZakah_def cashFromRates_def hijriToGregorian_def
      cashWithSimpleRates_def displayResults_def Let_def)

text \<open>No country chosen and no date: the error message.\<close>

theorem calculateZakah_without_date_witness:
  "fst (calculateZakah (\<lambda>d. ''2024-07-08'')
       \<lparr>historical = (\<lambda>s. HFetchFailed), current = CFetchFailed\<rparr>
       \<lparr>country = '''', selectedDate = None, goldPrice = 4000,
        exchangeRateCache = (\<lambda>k. None)\<rparr>
       \<lparr>gold_18k = Some 10, gold_21k = Some 0, gold_24k = Some 5,
        currency_egp = None, currency_sar = None, currency_usd = None,
        calculate_btn_disabled = False, calculate_btn_text = CalculateZakah\<rparr>) = ErrorMessage"
  using calculateZakah_without_date [of
       "\<lparr>country = '''', selectedDate = None, goldPrice = 4000,
        exchangeRateCache = (\<lambda>k. None)\<rparr>" "\<lambda>d. ''2024-07-08''"
       "\<lparr>historical = (\<lambda>s. HFetchFailed), current = CFetchFailed\<rparr>"
       "\<lparr>gold_18k = Some 10, gold_21k = Some 0, gold_24k = Some 5,
        currency_egp = None, currency_sar = None, currency_usd = None,
        calculate_btn_disabled = False, calculate_btn_text = CalculateZakah\<rparr>"]
  by simp


end
